theory Spec2Isabelle
  imports Main "HOL-Library.AList"
begin

section \<open>Values, exceptions and the world outside the cluster object\<close>

text \<open>
  The configuration document is what \<^verbatim>\<open>yaml.safe_load\<close> returns: scalars, lists and
  dictionaries. A Python dictionary keeps insertion order, and \<^verbatim>\<open>repr\<close> (hence the content
  hash) sees that order, so a dictionary is an association list. Only string keys are
  represented: every key the code reads or writes is a string literal or the instance-type
  key. Documents are trees: YAML aliases, which would make two sections one shared object,
  are not represented.
\<close>

datatype yaml =
    YNone
  | YBool bool
  | YInt int
  | YStr string
  | YList "yaml list"
  | YDict "(string \<times> yaml) list"

text \<open>
  Python exceptions as values. \<open>External\<close> stands for whatever the provisioning tool or
  the interpreter raises inside a thread body (the bodies catch \<^verbatim>\<open>BaseException\<close>, so
  interruption signals are among them). \<open>CannotSpawnCluster\<close> and \<open>CannotDestroyCluster\<close>
  carry their message and their \<^verbatim>\<open>cause\<close>.
\<close>

datatype exn =
    RuntimeError string
  | ValueError string
  | KeyError string
  | TypeError
  | AssertionError string
  | OSError string
  | External string
  | CannotSpawnCluster string exn
  | CannotDestroyCluster string exn

text \<open>Calls that reach the external provisioning tool, recorded in call order.\<close>

datatype gateway_call =
    Create_or_update string
  | Teardown string
  | Head_node_ip string

record world =
  files :: "string \<rightharpoonup> string"
  dirs :: "string set"
  environ :: "string \<rightharpoonup> string"
  stderr :: "string list"
  gateway_log :: "gateway_call list"

text \<open>
  What the module imports and does not define: the YAML library, the hash of a document's
  \<^verbatim>\<open>repr\<close>, \<^verbatim>\<open>shlex.quote\<close>, \<^verbatim>\<open>traceback.format_exc\<close>, the three functions of
  \<^verbatim>\<open>ray.autoscaler.commands\<close>, the constant \<^verbatim>\<open>Provider.AWS\<close> of the absent module
  \<^verbatim>\<open>cluster\<close>, and the two paths computed from \<^verbatim>\<open>__file__\<close> and the home directory.
  They are parameters of the model. A provisioning call returns the exception it raised,
  if any, and the files as it left them.
\<close>

record platform =
  base_config :: string
  cfgdir :: string
  Provider_AWS :: string
  yaml_safe_load :: "string \<Rightarrow> exn + yaml"
  yaml_dump :: "yaml \<Rightarrow> string"
  sha1_repr_hexdigest :: "yaml \<Rightarrow> string"
  shlex_quote :: "string \<Rightarrow> string"
  format_exc :: "exn \<Rightarrow> string"
  create_or_update_cluster :: "string \<Rightarrow> (string \<rightharpoonup> string) \<Rightarrow> exn option \<times> (string \<rightharpoonup> string)"
  teardown_cluster :: "string \<Rightarrow> (string \<rightharpoonup> string) \<Rightarrow> exn option \<times> (string \<rightharpoonup> string)"
  get_head_node_ip :: "string \<Rightarrow> (string \<rightharpoonup> string) \<Rightarrow> exn + string"

subsection \<open>Python subscripting on documents\<close>

text \<open>\<^verbatim>\<open>d[k]\<close>: \<^verbatim>\<open>KeyError\<close> on a missing key, \<^verbatim>\<open>TypeError\<close> on a value that is no dictionary.\<close>

definition getitem :: "yaml \<Rightarrow> string \<Rightarrow> exn + yaml" where
  "getitem d k =
     (case d of
        YDict kvs \<Rightarrow> (case map_of kvs k of None \<Rightarrow> Inl (KeyError k) | Some v \<Rightarrow> Inr v)
      | _ \<Rightarrow> Inl TypeError)"

text \<open>\<^verbatim>\<open>d[k] = v\<close>: an existing key keeps its place, a new key goes last.\<close>

definition setitem :: "yaml \<Rightarrow> string \<Rightarrow> yaml \<Rightarrow> exn + yaml" where
  "setitem d k v =
     (case d of
        YDict kvs \<Rightarrow> Inr (YDict (AList.update k v kvs))
      | _ \<Rightarrow> Inl TypeError)"

text \<open>\<^verbatim>\<open>d[k1][k2]\<close>.\<close>

definition getitem2 :: "yaml \<Rightarrow> string \<Rightarrow> string \<Rightarrow> exn + yaml" where
  "getitem2 d k1 k2 =
     (case getitem d k1 of Inl e \<Rightarrow> Inl e | Inr sub \<Rightarrow> getitem sub k2)"

text \<open>
  \<^verbatim>\<open>d[k1][k2] = v\<close>: the inner dictionary is fetched (and may be missing), then mutated in
  place, so the outer document shows the change at the same key.
\<close>

definition setitem2 :: "yaml \<Rightarrow> string \<Rightarrow> string \<Rightarrow> yaml \<Rightarrow> exn + yaml" where
  "setitem2 d k1 k2 v =
     (case getitem d k1 of
        Inl e \<Rightarrow> Inl e
      | Inr sub \<Rightarrow>
          (case setitem sub k2 v of
             Inl e \<Rightarrow> Inl e
           | Inr sub' \<Rightarrow> setitem d k1 sub'))"

text \<open>Sequencing of steps that may raise.\<close>

definition and_then :: "exn + 'a \<Rightarrow> ('a \<Rightarrow> exn + 'b) \<Rightarrow> exn + 'b" where
  "and_then m f = (case m of Inl e \<Rightarrow> Inl e | Inr x \<Rightarrow> f x)"

text \<open>Truth value of an optional string: \<^verbatim>\<open>None\<close> and the empty string are false.\<close>

definition truthy :: "string option \<Rightarrow> bool" where
  "truthy s = (case s of None \<Rightarrow> False | Some t \<Rightarrow> t \<noteq> [])"

definition yaml_of_opt :: "string option \<Rightarrow> yaml" where
  "yaml_of_opt s = (case s of None \<Rightarrow> YNone | Some t \<Rightarrow> YStr t)"

subsection \<open>Files\<close>

definition os_path_exists :: "world \<Rightarrow> string \<Rightarrow> bool" where
  "os_path_exists w p = (files w p \<noteq> None \<or> p \<in> dirs w)"

text \<open>\<^verbatim>\<open>posixpath.join\<close> of two components.\<close>

definition os_path_join :: "string \<Rightarrow> string \<Rightarrow> string" where
  "os_path_join a b =
     (if b \<noteq> [] \<and> hd b = CHR ''/'' then b
      else if a = [] \<or> last a = CHR ''/'' then a @ b
      else a @ ''/'' @ b)"

text \<open>\<^verbatim>\<open>open(p).read()\<close>.\<close>

definition read_file :: "world \<Rightarrow> string \<Rightarrow> exn + string" where
  "read_file w p =
     (case files w p of
        None \<Rightarrow> Inl (OSError p)
      | Some text \<Rightarrow> Inr text)"

text \<open>\<^verbatim>\<open>open(p, "w")\<close> followed by one \<^verbatim>\<open>write\<close>: the file is created or replaced.\<close>

definition write_file :: "world \<Rightarrow> string \<Rightarrow> string \<Rightarrow> exn + world" where
  "write_file w p text =
     (if p \<in> dirs w then Inl (OSError p)
      else Inr (w\<lparr>files := (files w)(p \<mapsto> text)\<rparr>))"

text \<open>
  \<^verbatim>\<open>os.makedirs(d, mode=0o700, exist_ok=True)\<close>: nothing happens when the directory
  exists; a file of that name is an error. Parent directories and permissions are not
  tracked.
\<close>

definition os_makedirs :: "world \<Rightarrow> string \<Rightarrow> exn + world" where
  "os_makedirs w d =
     (if files w d \<noteq> None then Inl (OSError d)
      else Inr (w\<lparr>dirs := insert d (dirs w)\<rparr>))"

section \<open>The cluster object\<close>

text \<open>
  The fields the absent base class \<^verbatim>\<open>Cluster\<close> sets from the constructor's arguments, and
  the fields of its \<^verbatim>\<open>Provider\<close>.
\<close>

record provider =
  name :: string
  credentials_file :: "string option"
  region :: "string option"
  zone :: "string option"

record cluster_spec =
  provider :: provider
  project_name :: "string option"
  cluster_name :: string
  worker_count :: int
  head_node_type :: "string option"
  worker_node_type :: "string option"

text \<open>
  A \<^verbatim>\<open>threading.Thread\<close> object: its target and where it is in its life. A thread is
  \<open>Initial\<close> when constructed; \<^verbatim>\<open>start()\<close> would make it \<open>Started\<close>; it is \<open>Stopped\<close> once
  its target has returned.
\<close>

datatype target = Target_spawn | Target_destroy

datatype thread_status = Initial | Started | Stopped

record py_thread =
  thread_target :: target
  status :: thread_status

definition Thread :: "target \<Rightarrow> py_thread" where
  "Thread tgt = \<lparr>thread_target = tgt, status = Initial\<rparr>"

record thread_task =
  target :: target
  thread :: "py_thread option"
  exc :: "exn option"
  silent :: bool

definition ThreadTask :: "target \<Rightarrow> thread_task" where
  "ThreadTask tgt = \<lparr>target = tgt, thread = None, exc = None, silent = False\<rparr>"

text \<open>
  The object. \<open>spawn_exc\<close> and \<open>destroy_exc\<close> are attributes the constructor does not
  create: \<open>None\<close> stands for an attribute that has not been assigned yet.
\<close>

record RayCluster =
  spec :: cluster_spec
  spawner :: thread_task
  destroyer :: thread_task
  ready :: bool
  config :: yaml
  config_file :: string
  spawn_exc :: "exn option"
  destroy_exc :: "exn option"

datatype task_kind = Spawner | Destroyer

definition get_task :: "task_kind \<Rightarrow> RayCluster \<Rightarrow> thread_task" where
  "get_task k c = (case k of Spawner \<Rightarrow> spawner c | Destroyer \<Rightarrow> destroyer c)"

definition set_task :: "task_kind \<Rightarrow> thread_task \<Rightarrow> RayCluster \<Rightarrow> RayCluster" where
  "set_task k t c = (case k of Spawner \<Rightarrow> c\<lparr>spawner := t\<rparr> | Destroyer \<Rightarrow> c\<lparr>destroyer := t\<rparr>)"

text \<open>\<^verbatim>\<open>ConnectionDetails\<close>, a named tuple whose \<open>port\<close> defaults to 22.\<close>

record connection_details =
  user_name :: yaml
  key_file :: yaml
  address :: string
  port :: int

definition ConnectionDetails :: "yaml \<Rightarrow> yaml \<Rightarrow> string \<Rightarrow> connection_details" where
  "ConnectionDetails u k a = \<lparr>user_name = u, key_file = k, address = a, port = 22\<rparr>"

section \<open>Building and persisting the configuration\<close>

text \<open>The two class-level lookup tables, each with the one entry for \<^verbatim>\<open>Provider.AWS\<close>.\<close>

definition RayCluster__instance_key :: "platform \<Rightarrow> string \<rightharpoonup> string" where
  "RayCluster__instance_key P = [Provider_AWS P \<mapsto> ''InstanceType'']"

definition RayCluster__credentials_env :: "platform \<Rightarrow> string \<rightharpoonup> string" where
  "RayCluster__credentials_env P = [Provider_AWS P \<mapsto> ''AWS_CONFIG_FILE'']"

text \<open>
  \<^verbatim>\<open>__make_config\<close>: the template is read and parsed, then updated statement by
  statement; the first statement that raises ends the call. The instance-type lookup turns
  the \<^verbatim>\<open>KeyError\<close> of the table into \<^verbatim>\<open>ValueError("Unsupported provider: ...")\<close>.
\<close>

definition RayCluster__make_config :: "platform \<Rightarrow> cluster_spec \<Rightarrow> world \<Rightarrow> exn + yaml" where
  "RayCluster__make_config P sp w =
     and_then (read_file w (base_config P)) (\<lambda>text.
     and_then (yaml_safe_load P text) (\<lambda>c0.
     and_then (setitem c0 ''cluster_name'' (YStr (cluster_name sp))) (\<lambda>c1.
     and_then (setitem c1 ''min_workers'' (YInt (worker_count sp))) (\<lambda>c2.
     and_then (setitem c2 ''max_workers'' (YInt (worker_count sp))) (\<lambda>c3.
     and_then (setitem c3 ''initial_workers'' (YInt (worker_count sp))) (\<lambda>c4.
     and_then (setitem2 c4 ''provider'' ''type'' (YStr (name (provider sp)))) (\<lambda>c5.
     and_then (if truthy (region (provider sp))
               then setitem2 c5 ''provider'' ''region'' (yaml_of_opt (region (provider sp)))
               else Inr c5) (\<lambda>c6.
     and_then (if truthy (zone (provider sp))
               then setitem2 c6 ''provider'' ''zone'' (yaml_of_opt (zone (provider sp)))
               else Inr c6) (\<lambda>c7.
     and_then (setitem2 c7 ''auth'' ''ssh_user'' (YStr ''modin'')) (\<lambda>c8.
     and_then (case environ w ''MODIN_SOCKS_PROXY'' of
                 None \<Rightarrow> Inr c8
               | Some socks_proxy \<Rightarrow>
                   if socks_proxy \<noteq> []
                   then setitem2 c8 ''auth'' ''ssh_proxy_command''
                          (YStr (''nc -x '' @ shlex_quote P socks_proxy @ '' %h %p''))
                   else Inr c8) (\<lambda>c9.
     and_then (case RayCluster__instance_key P (name (provider sp)) of
                 None \<Rightarrow> Inl (ValueError (''Unsupported provider: '' @ name (provider sp)))
               | Some k \<Rightarrow> Inr k) (\<lambda>instance_key.
     and_then (setitem2 c9 ''head_node'' instance_key (yaml_of_opt (head_node_type sp))) (\<lambda>c10.
     and_then (setitem2 c10 ''worker_nodes'' instance_key (yaml_of_opt (worker_node_type sp))) (\<lambda>c11.
     Inr c11))))))))))))))"

text \<open>
  The \<^verbatim>\<open>for ... else\<close> of \<^verbatim>\<open>__save_config\<close>: the first candidate that does not exist
  ends the loop; \<open>None\<close> is the loop running to its end, where the \<^verbatim>\<open>else\<close> branch takes
  the full hash.
\<close>

definition config_entry :: "string \<Rightarrow> string \<Rightarrow> string" where
  "config_entry d h = os_path_join d (''config-'' @ h @ ''.yml'')"

fun probe :: "world \<Rightarrow> string \<Rightarrow> string \<Rightarrow> nat list \<Rightarrow> string option" where
  "probe w d namehash [] = None"
| "probe w d namehash (stop # stops) =
     (if \<not> os_path_exists w (config_entry d (take stop namehash))
      then Some (config_entry d (take stop namehash))
      else probe w d namehash stops)"

definition RayCluster__save_config :: "platform \<Rightarrow> yaml \<Rightarrow> world \<Rightarrow> (exn + string) \<times> world" where
  "RayCluster__save_config P cfg w =
     (case os_makedirs w (cfgdir P) of
        Inl e \<Rightarrow> (Inl e, w)
      | Inr w1 \<Rightarrow>
          (let namehash = sha1_repr_hexdigest P cfg;
               entry = (case probe w1 (cfgdir P) namehash [4..<length namehash] of
                          Some e \<Rightarrow> e
                        | None \<Rightarrow> config_entry (cfgdir P) namehash)
           in case write_file w1 entry (yaml_dump P cfg) of
                Inl e \<Rightarrow> (Inl e, w1)
              | Inr w2 \<Rightarrow> (Inr entry, w2)))"

text \<open>
  \<^verbatim>\<open>__init__\<close>, after the base class has stored the arguments: the credentials lookup
  (only with a credentials file), then the configuration is built and persisted.
\<close>

definition RayCluster_init :: "platform \<Rightarrow> cluster_spec \<Rightarrow> world \<Rightarrow> (exn + RayCluster) \<times> world" where
  "RayCluster_init P sp w =
     (case (case credentials_file (provider sp) of
              None \<Rightarrow> Inr w
            | Some f \<Rightarrow>
                (case RayCluster__credentials_env P (name (provider sp)) of
                   None \<Rightarrow> Inl (ValueError (''Unsupported provider: '' @ name (provider sp)))
                 | Some config_key \<Rightarrow> Inr (w\<lparr>environ := (environ w)(config_key \<mapsto> f)\<rparr>))) of
        Inl e \<Rightarrow> (Inl e, w)
      | Inr w1 \<Rightarrow>
          (case RayCluster__make_config P sp w1 of
             Inl e \<Rightarrow> (Inl e, w1)
           | Inr cfg \<Rightarrow>
               (case RayCluster__save_config P cfg w1 of
                  (Inl e, w2) \<Rightarrow> (Inl e, w2)
                | (Inr path, w2) \<Rightarrow>
                    (Inr \<lparr>spec = sp,
                          spawner = ThreadTask Target_spawn,
                          destroyer = ThreadTask Target_destroy,
                          ready = False,
                          config = cfg,
                          config_file = path,
                          spawn_exc = None,
                          destroy_exc = None\<rparr>, w2))))"

section \<open>The thread bodies\<close>

text \<open>
  \<^verbatim>\<open>__spawn\<close>: everything inside \<^verbatim>\<open>try\<close> may raise (the provisioning call, reading the
  file back, parsing it); \<^verbatim>\<open>except BaseException\<close> stores the wrapped error in the
  attribute \<^verbatim>\<open>spawn_exc\<close> of the cluster and, unless the spawner task is silent, writes
  the trace to standard error.
\<close>

definition RayCluster__spawn :: "platform \<Rightarrow> RayCluster \<Rightarrow> world \<Rightarrow> (exn + unit) \<times> RayCluster \<times> world" where
  "RayCluster__spawn P c w =
     (let (raised, fs) = create_or_update_cluster P (config_file c) (files w);
          w1 = w\<lparr>files := fs,
                  gateway_log := gateway_log w @ [Create_or_update (config_file c)]\<rparr>;
          tried = (case raised of
                     Some ex \<Rightarrow> Inl ex
                   | None \<Rightarrow> and_then (read_file w1 (config_file c)) (yaml_safe_load P))
      in case tried of
           Inr cfg \<Rightarrow> (Inr (), c\<lparr>config := cfg, ready := True\<rparr>, w1)
         | Inl ex \<Rightarrow>
             (Inr (),
              c\<lparr>spawn_exc := Some (CannotSpawnCluster ''Cannot spawn cluster'' ex)\<rparr>,
              if silent (spawner c) then w1
              else w1\<lparr>stderr := stderr w1 @
                     [''Cannot spawn cluster:'' @ [CHR 0x0A] @ format_exc P ex @ [CHR 0x0A]]\<rparr>))"

text \<open>\<^verbatim>\<open>__destroy\<close>: the same shape around the teardown call.\<close>

definition RayCluster__destroy :: "platform \<Rightarrow> RayCluster \<Rightarrow> world \<Rightarrow> (exn + unit) \<times> RayCluster \<times> world" where
  "RayCluster__destroy P c w =
     (let (raised, fs) = teardown_cluster P (config_file c) (files w);
          w1 = w\<lparr>files := fs,
                  gateway_log := gateway_log w @ [Teardown (config_file c)]\<rparr>
      in case raised of
           None \<Rightarrow> (Inr (), c\<lparr>ready := False, config := YNone\<rparr>, w1)
         | Some ex \<Rightarrow>
             (Inr (),
              c\<lparr>destroy_exc := Some (CannotDestroyCluster ''Cannot destroy cluster'' ex)\<rparr>,
              if silent (destroyer c) then w1
              else w1\<lparr>stderr := stderr w1 @
                     [''Cannot destroy cluster:'' @ [CHR 0x0A] @ format_exc P ex @ [CHR 0x0A]]\<rparr>))"

section \<open>Running a task\<close>

definition run_target :: "platform \<Rightarrow> target \<Rightarrow> RayCluster \<Rightarrow> world \<Rightarrow> (exn + unit) \<times> RayCluster \<times> world" where
  "run_target P tgt c w =
     (case tgt of
        Target_spawn \<Rightarrow> RayCluster__spawn P c w
      | Target_destroy \<Rightarrow> RayCluster__destroy P c w)"

text \<open>
  \<^verbatim>\<open>Thread.join()\<close> on the thread \<open>t\<close> held by task \<open>k\<close>. Joining a thread that was never
  started raises \<^verbatim>\<open>RuntimeError\<close>. Joining a started thread returns once its target has
  returned: in this sequential model the target runs to its end at the join. A stopped
  thread is joined at once.
\<close>

definition join_error :: exn where
  "join_error = RuntimeError ''cannot join thread before it is started''"

definition thread_join ::
  "platform \<Rightarrow> task_kind \<Rightarrow> py_thread \<Rightarrow> RayCluster \<Rightarrow> world \<Rightarrow> (exn + unit) \<times> RayCluster \<times> world" where
  "thread_join P k t c w =
     (case status t of
        Initial \<Rightarrow> (Inl join_error, c, w)
      | Stopped \<Rightarrow> (Inr (), c, w)
      | Started \<Rightarrow>
          (case run_target P (thread_target t) c w of
             (r, c1, w1) \<Rightarrow>
               (Inr (),
                set_task k ((get_task k c1)\<lparr>thread := Some (t\<lparr>status := Stopped\<rparr>)\<rparr>) c1,
                w1)))"

text \<open>
  \<^verbatim>\<open>__run_thread\<close>. A task without a thread gets a new \<^verbatim>\<open>Thread\<close> object; no statement
  calls \<^verbatim>\<open>start()\<close> on it. With \<open>wait\<close> the task is made silent, the thread is joined,
  the task's \<open>exc\<close> is swapped for \<open>None\<close>, and what it held is raised.
\<close>

definition RayCluster__run_thread ::
  "platform \<Rightarrow> bool \<Rightarrow> task_kind \<Rightarrow> RayCluster \<Rightarrow> world \<Rightarrow> (exn + unit) \<times> RayCluster \<times> world" where
  "RayCluster__run_thread P wait k c w =
     (let task = get_task k c;
          t = (case thread task of None \<Rightarrow> Thread (target task) | Some t' \<Rightarrow> t');
          c1 = set_task k (task\<lparr>thread := Some t\<rparr>) c
      in if wait then
           (let c2 = set_task k ((get_task k c1)\<lparr>silent := True\<rparr>) c1
            in case thread_join P k t c2 w of
                 (Inl e, c3, w3) \<Rightarrow> (Inl e, c3, w3)
               | (Inr u, c3, w3) \<Rightarrow>
                   (let held = exc (get_task k c3);
                        c4 = set_task k ((get_task k c3)\<lparr>exc := None\<rparr>) c3
                    in case held of
                         Some e \<Rightarrow> (Inl e, c4, w3)
                       | None \<Rightarrow> (Inr (), c4, w3)))
         else (Inr (), c1, w))"

definition RayCluster_spawn :: "platform \<Rightarrow> bool \<Rightarrow> RayCluster \<Rightarrow> world \<Rightarrow> (exn + unit) \<times> RayCluster \<times> world" where
  "RayCluster_spawn P wait c w = RayCluster__run_thread P wait Spawner c w"

definition RayCluster_destroy :: "platform \<Rightarrow> bool \<Rightarrow> RayCluster \<Rightarrow> world \<Rightarrow> (exn + unit) \<times> RayCluster \<times> world" where
  "RayCluster_destroy P wait c w = RayCluster__run_thread P wait Destroyer c w"

section \<open>Connection details\<close>

text \<open>
  \<^verbatim>\<open>_get_connection_details\<close>: the assertion first, then the keyword arguments in the
  order they are written, the head-node query last.
\<close>

definition RayCluster_get_connection_details ::
  "platform \<Rightarrow> RayCluster \<Rightarrow> world \<Rightarrow> (exn + connection_details) \<times> world" where
  "RayCluster_get_connection_details P c w =
     (if \<not> ready c
      then (Inl (AssertionError ''Cluster is not ready, cannot get connection details''), w)
      else
        (case getitem2 (config c) ''auth'' ''ssh_user'' of
           Inl e \<Rightarrow> (Inl e, w)
         | Inr u \<Rightarrow>
             (case getitem2 (config c) ''auth'' ''ssh_private_key'' of
                Inl e \<Rightarrow> (Inl e, w)
              | Inr kf \<Rightarrow>
                  (let w1 = w\<lparr>gateway_log := gateway_log w @ [Head_node_ip (config_file c)]\<rparr>
                   in case get_head_node_ip P (config_file c) (files w) of
                        Inl e \<Rightarrow> (Inl e, w1)
                      | Inr a \<Rightarrow> (Inr (ConnectionDetails u kf a), w1)))))"

definition RayCluster_get_main_python :: string where
  "RayCluster_get_main_python = ''~/miniconda/envs/modin/bin/python''"

section \<open>Sequences of calls on one object\<close>

datatype op =
    Op_spawn bool
  | Op_destroy bool
  | Op_get_connection_details
  | Op_get_main_python

datatype retval = Ret_none | Ret_details connection_details | Ret_str string

definition step :: "platform \<Rightarrow> op \<Rightarrow> RayCluster \<Rightarrow> world \<Rightarrow> (exn + retval) \<times> RayCluster \<times> world" where
  "step P x c w =
     (case x of
        Op_spawn wait \<Rightarrow>
          (case RayCluster_spawn P wait c w of
             (r, c1, w1) \<Rightarrow> (map_sum id (\<lambda>u. Ret_none) r, c1, w1))
      | Op_destroy wait \<Rightarrow>
          (case RayCluster_destroy P wait c w of
             (r, c1, w1) \<Rightarrow> (map_sum id (\<lambda>u. Ret_none) r, c1, w1))
      | Op_get_connection_details \<Rightarrow>
          (case RayCluster_get_connection_details P c w of
             (r, w1) \<Rightarrow> (map_sum id Ret_details r, c, w1))
      | Op_get_main_python \<Rightarrow> (Inr (Ret_str RayCluster_get_main_python), c, w))"

text \<open>
  A caller may catch what a call raises and go on using the object, so a sequence runs to
  its end and collects every result.
\<close>

fun run_ops ::
  "platform \<Rightarrow> op list \<Rightarrow> RayCluster \<Rightarrow> world \<Rightarrow> (exn + retval) list \<times> RayCluster \<times> world" where
  "run_ops P [] c w = ([], c, w)"
| "run_ops P (x # xs) c w =
     (case step P x c w of
        (r, c1, w1) \<Rightarrow>
          (case run_ops P xs c1 w1 of
             (rs, c2, w2) \<Rightarrow> (r # rs, c2, w2)))"

section \<open>Predicates of the statements\<close>

text \<open>
  The template file can be read, parses to a dictionary, and has dictionaries under
  \<open>provider\<close> and \<open>auth\<close>, the two sections the builder writes into before it looks up
  the instance-type key.
\<close>

definition template_sections :: "platform \<Rightarrow> world \<Rightarrow> bool" where
  "template_sections P w =
     (case read_file w (base_config P) of
        Inl e \<Rightarrow> False
      | Inr body \<Rightarrow>
          (case yaml_safe_load P body of
             Inr (YDict kvs) \<Rightarrow>
               (case (map_of kvs ''provider'', map_of kvs ''auth'') of
                  (Some (YDict pk), Some (YDict ak)) \<Rightarrow> True
                | _ \<Rightarrow> False)
           | _ \<Rightarrow> False))"

text \<open>
  The template is one the builder can complete: it can be read and parsed, and it has a
  dictionary under each of the four sections the builder writes into.
\<close>

definition has_section :: "yaml \<Rightarrow> string \<Rightarrow> bool" where
  "has_section d k = (case getitem d k of Inr (YDict kvs) \<Rightarrow> True | _ \<Rightarrow> False)"

definition template_builds :: "platform \<Rightarrow> world \<Rightarrow> bool" where
  "template_builds P w =
     (case read_file w (base_config P) of
        Inl e \<Rightarrow> False
      | Inr body \<Rightarrow>
          (case yaml_safe_load P body of
             Inl e \<Rightarrow> False
           | Inr c0 \<Rightarrow>
               has_section c0 ''provider'' \<and> has_section c0 ''auth'' \<and>
               has_section c0 ''head_node'' \<and> has_section c0 ''worker_nodes''))"

definition unsupported_provider :: "string \<Rightarrow> exn" where
  "unsupported_provider n = ValueError (''Unsupported provider: '' @ n)"

text \<open>
  Both tasks hold no exception; and what a call of \<^verbatim>\<open>spawn\<close> or \<^verbatim>\<open>destroy\<close> gave its caller
  is either a normal return or the error of joining a thread that was never started.
\<close>

definition exc_clear :: "RayCluster \<Rightarrow> bool" where
  "exc_clear c = (exc (spawner c) = None \<and> exc (destroyer c) = None)"

definition wait_result_ok :: "op \<Rightarrow> exn + retval \<Rightarrow> bool" where
  "wait_result_ok x r =
     (case x of
        Op_spawn wait \<Rightarrow> r = Inr Ret_none \<or> r = Inl join_error
      | Op_destroy wait \<Rightarrow> r = Inr Ret_none \<or> r = Inl join_error
      | Op_get_connection_details \<Rightarrow> True
      | Op_get_main_python \<Rightarrow> True)"

text \<open>
  A task whose thread, if it has one, was never started; and what each call gives its
  caller on an object where no thread was started and \<open>ready\<close> is false.
\<close>

definition unstarted :: "thread_task \<Rightarrow> bool" where
  "unstarted t = (case thread t of None \<Rightarrow> True | Some th \<Rightarrow> status th = Initial)"

definition unprovisioned_result :: "op \<Rightarrow> exn + retval" where
  "unprovisioned_result x =
     (case x of
        Op_spawn wait \<Rightarrow> if wait then Inl join_error else Inr Ret_none
      | Op_destroy wait \<Rightarrow> if wait then Inl join_error else Inr Ret_none
      | Op_get_connection_details \<Rightarrow>
          Inl (AssertionError ''Cluster is not ready, cannot get connection details'')
      | Op_get_main_python \<Rightarrow> Inr (Ret_str RayCluster_get_main_python))"

section \<open>A concrete platform, world and object\<close>

text \<open>
  Small concrete instances on which the theorems below are run: a template with the
  sections the builder writes into, a platform whose provisioning calls end with a given
  outcome, and a world that holds only the template file.
\<close>

definition demo_template :: yaml where
  "demo_template =
     YDict [(''cluster_name'', YStr ''default''),
            (''min_workers'', YInt 0),
            (''provider'', YDict [(''type'', YStr ''none''), (''region'', YStr ''us-west-1'')]),
            (''auth'', YDict [(''ssh_user'', YStr ''ubuntu''), (''ssh_private_key'', YStr ''key.pem'')]),
            (''head_node'', YDict []),
            (''worker_nodes'', YDict [])]"

definition demo_platform :: "exn option \<Rightarrow> platform" where
  "demo_platform outcome =
     \<lparr>base_config = ''/pkg/ray-autoscaler.yml'',
      cfgdir = ''/home/u/.modin/cloud'',
      Provider_AWS = ''aws'',
      yaml_safe_load = (\<lambda>text. Inr demo_template),
      yaml_dump = (\<lambda>d. ''dumped''),
      sha1_repr_hexdigest = (\<lambda>d. ''0123456789abcdef0123456789abcdef01234567''),
      shlex_quote = (\<lambda>a. a),
      format_exc = (\<lambda>e. ''trace''),
      create_or_update_cluster = (\<lambda>path fs. (outcome, fs)),
      teardown_cluster = (\<lambda>path fs. (outcome, fs)),
      get_head_node_ip = (\<lambda>path fs. Inr ''10.0.0.1'')\<rparr>"

definition demo_world :: world where
  "demo_world =
     \<lparr>files = [''/pkg/ray-autoscaler.yml'' \<mapsto> ''template''],
      dirs = {},
      environ = Map.empty,
      stderr = [],
      gateway_log = []\<rparr>"

definition demo_spec :: "string \<Rightarrow> cluster_spec" where
  "demo_spec provider_name =
     \<lparr>provider = \<lparr>name = provider_name, credentials_file = None, region = None, zone = None\<rparr>,
      project_name = None,
      cluster_name = ''modin-cluster'',
      worker_count = 4,
      head_node_type = None,
      worker_node_type = None\<rparr>"

text \<open>The document built from the template for \<open>demo_spec ''aws''\<close>.\<close>

definition demo_config :: yaml where
  "demo_config =
     YDict [(''cluster_name'', YStr ''modin-cluster''),
            (''min_workers'', YInt 4),
            (''provider'', YDict [(''type'', YStr ''aws''), (''region'', YStr ''us-west-1'')]),
            (''auth'', YDict [(''ssh_user'', YStr ''modin''), (''ssh_private_key'', YStr ''key.pem'')]),
            (''head_node'', YDict [(''InstanceType'', YNone)]),
            (''worker_nodes'', YDict [(''InstanceType'', YNone)]),
            (''max_workers'', YInt 4),
            (''initial_workers'', YInt 4)]"

text \<open>The world once the constructor has persisted that document.\<close>

definition demo_world_built :: world where
  "demo_world_built =
     \<lparr>files = [''/pkg/ray-autoscaler.yml'' \<mapsto> ''template'',
               ''/home/u/.modin/cloud/config-0123.yml'' \<mapsto> ''dumped''],
      dirs = {''/home/u/.modin/cloud''},
      environ = Map.empty,
      stderr = [],
      gateway_log = []\<rparr>"

text \<open>The same object with a spawner thread that has been started and not yet joined.\<close>

definition demo_cluster_started :: RayCluster where
  "demo_cluster_started =
     \<lparr>spec = demo_spec ''aws'',
      spawner = \<lparr>target = Target_spawn,
                 thread = Some \<lparr>thread_target = Target_spawn, status = Started\<rparr>,
                 exc = None,
                 silent = False\<rparr>,
      destroyer = ThreadTask Target_destroy,
      ready = False,
      config = demo_config,
      config_file = ''/home/u/.modin/cloud/config-0123.yml'',
      spawn_exc = None,
      destroy_exc = None\<rparr>"

text \<open>
  The object as \<^verbatim>\<open>__init__\<close> leaves it for \<open>demo_spec ''aws''\<close>, with a given \<open>ready\<close> flag
  (the constructor sets it to \<open>False\<close>).
\<close>

definition demo_cluster :: "bool \<Rightarrow> RayCluster" where
  "demo_cluster r =
     \<lparr>spec = demo_spec ''aws'',
      spawner = ThreadTask Target_spawn,
      destroyer = ThreadTask Target_destroy,
      ready = r,
      config = demo_config,
      config_file = ''/home/u/.modin/cloud/config-0123.yml'',
      spawn_exc = None,
      destroy_exc = None\<rparr>"

section \<open>The thread bodies on a failing provisioning call\<close>

lemma spawn_body_failure:
  "fst (create_or_update_cluster P (config_file c) (files w)) = Some ex \<Longrightarrow>
   RayCluster__spawn P c w =
     (Inr (),
      c\<lparr>spawn_exc := Some (CannotSpawnCluster ''Cannot spawn cluster'' ex)\<rparr>,
      let w1 = w\<lparr>files := snd (create_or_update_cluster P (config_file c) (files w)),
                     gateway_log := gateway_log w @ [Create_or_update (config_file c)]\<rparr>
      in if silent (spawner c) then w1
         else w1\<lparr>stderr := stderr w1 @
                [''Cannot spawn cluster:'' @ [CHR 0x0A] @ format_exc P ex @ [CHR 0x0A]]\<rparr>)"
  by (cases "create_or_update_cluster P (config_file c) (files w)")
     (simp add: RayCluster__spawn_def Let_def)

lemma destroy_body_failure:
  "fst (teardown_cluster P (config_file c) (files w)) = Some ex \<Longrightarrow>
   RayCluster__destroy P c w =
     (Inr (),
      c\<lparr>destroy_exc := Some (CannotDestroyCluster ''Cannot destroy cluster'' ex)\<rparr>,
      let w1 = w\<lparr>files := snd (teardown_cluster P (config_file c) (files w)),
                     gateway_log := gateway_log w @ [Teardown (config_file c)]\<rparr>
      in if silent (destroyer c) then w1
         else w1\<lparr>stderr := stderr w1 @
                [''Cannot destroy cluster:'' @ [CHR 0x0A] @ format_exc P ex @ [CHR 0x0A]]\<rparr>)"
  by (cases "teardown_cluster P (config_file c) (files w)")
     (simp add: RayCluster__destroy_def Let_def)

text \<open>
  Claim C6. When the provisioning call of the spawn body raises, the body returns
  normally (nothing leaves the thread), the \<open>ready\<close> flag is what it was before (so a
  cluster that was not ready stays not ready), and the wrapped error is stored on the
  object. When the teardown call of the destroy body raises, the same holds: the body
  returns normally, \<open>ready\<close> is exactly what it was (true if it was true), and the wrapped
  error is stored.
\<close>

theorem failed_body_keeps_ready:
  "(fst (create_or_update_cluster P (config_file c) (files w)) = Some ex \<longrightarrow>
      (case RayCluster__spawn P c w of
         (r, c', w') \<Rightarrow>
           r = Inr () \<and> ready c' = ready c \<and>
           spawn_exc c' = Some (CannotSpawnCluster ''Cannot spawn cluster'' ex) \<and>
           spawner c' = spawner c \<and> destroyer c' = destroyer c \<and> config c' = config c)) \<and>
   (fst (teardown_cluster P (config_file c) (files w)) = Some ex \<longrightarrow>
      (case RayCluster__destroy P c w of
         (r, c', w') \<Rightarrow>
           r = Inr () \<and> ready c' = ready c \<and>
           destroy_exc c' = Some (CannotDestroyCluster ''Cannot destroy cluster'' ex) \<and>
           spawner c' = spawner c \<and> destroyer c' = destroyer c \<and> config c' = config c))"
  by (auto simp: spawn_body_failure destroy_body_failure split: prod.splits)

theorem failed_body_keeps_ready_witness:
  "fst (create_or_update_cluster (demo_platform (Some (External ''quota'')))
          (config_file (demo_cluster False)) (files demo_world)) = Some (External ''quota'') \<and>
   ready (fst (snd (RayCluster__spawn (demo_platform (Some (External ''quota'')))
          (demo_cluster False) demo_world))) = False \<and>
   fst (teardown_cluster (demo_platform (Some (External ''quota'')))
          (config_file (demo_cluster True)) (files demo_world)) = Some (External ''quota'') \<and>
   ready (fst (snd (RayCluster__destroy (demo_platform (Some (External ''quota'')))
          (demo_cluster True) demo_world))) = True \<and>
   destroy_exc (fst (snd (RayCluster__destroy (demo_platform (Some (External ''quota'')))
          (demo_cluster True) demo_world))) =
     Some (CannotDestroyCluster ''Cannot destroy cluster'' (External ''quota''))"
  using failed_body_keeps_ready
          [where P = "demo_platform (Some (External ''quota''))" and c = "demo_cluster False"
             and w = demo_world and ex = "External ''quota''"]
        failed_body_keeps_ready
          [where P = "demo_platform (Some (External ''quota''))" and c = "demo_cluster True"
             and w = demo_world and ex = "External ''quota''"]
  by (simp add: demo_platform_def demo_cluster_def split: prod.splits)

section \<open>Calls that do not wait\<close>

text \<open>
  Claim C9. \<^verbatim>\<open>spawn(wait=False)\<close> and \<^verbatim>\<open>destroy(wait=False)\<close> raise nothing, leave the
  world as it was (so no provisioning call is made and nothing is written), and leave
  \<open>ready\<close>, \<open>config\<close>, \<open>config_file\<close> and every other field of the object unchanged but the
  \<open>thread\<close> field of the task concerned: a task without a thread gets a newly constructed
  thread in its initial, never-started state, and a task that has a thread keeps it. A
  second call changes nothing more.
\<close>

theorem nowait_frame:
  "(case RayCluster_spawn P False c w of
      (r, c', w') \<Rightarrow>
        r = Inr () \<and> w' = w \<and>
        ready c' = ready c \<and> config c' = config c \<and> config_file c' = config_file c \<and>
        spec c' = spec c \<and> spawn_exc c' = spawn_exc c \<and> destroy_exc c' = destroy_exc c \<and>
        destroyer c' = destroyer c \<and>
        spawner c' = (spawner c)\<lparr>thread :=
           Some (case thread (spawner c) of
                   None \<Rightarrow> \<lparr>thread_target = target (spawner c), status = Initial\<rparr>
                 | Some t \<Rightarrow> t)\<rparr> \<and>
        RayCluster_spawn P False c' w' = (Inr (), c', w')) \<and>
   (case RayCluster_destroy P False c w of
      (r, c', w') \<Rightarrow>
        r = Inr () \<and> w' = w \<and>
        ready c' = ready c \<and> config c' = config c \<and> config_file c' = config_file c \<and>
        spec c' = spec c \<and> spawn_exc c' = spawn_exc c \<and> destroy_exc c' = destroy_exc c \<and>
        spawner c' = spawner c \<and>
        destroyer c' = (destroyer c)\<lparr>thread :=
           Some (case thread (destroyer c) of
                   None \<Rightarrow> \<lparr>thread_target = target (destroyer c), status = Initial\<rparr>
                 | Some t \<Rightarrow> t)\<rparr> \<and>
        RayCluster_destroy P False c' w' = (Inr (), c', w'))"
  by (simp add: RayCluster_spawn_def RayCluster_destroy_def RayCluster__run_thread_def
        get_task_def set_task_def Thread_def Let_def split: option.split)

theorem nowait_frame_witness:
  "RayCluster_spawn (demo_platform None) False (demo_cluster False) demo_world =
     (Inr (),
      (demo_cluster False)\<lparr>spawner :=
         \<lparr>target = Target_spawn,
          thread = Some \<lparr>thread_target = Target_spawn, status = Initial\<rparr>,
          exc = None, silent = False\<rparr>\<rparr>,
      demo_world)"
  using nowait_frame [where P = "demo_platform None" and c = "demo_cluster False" and w = demo_world]
  by (auto simp: demo_cluster_def ThreadTask_def split: prod.splits)

section \<open>The exception slot of a task\<close>

text \<open>Neither thread body touches a task object.\<close>

lemma spawn_body_tasks:
  "RayCluster__spawn P c w = (r, c', w') \<Longrightarrow> spawner c' = spawner c \<and> destroyer c' = destroyer c"
  by (auto simp: RayCluster__spawn_def Let_def split: prod.splits sum.splits)

lemma destroy_body_tasks:
  "RayCluster__destroy P c w = (r, c', w') \<Longrightarrow> spawner c' = spawner c \<and> destroyer c' = destroyer c"
  by (auto simp: RayCluster__destroy_def Let_def split: prod.splits option.splits)

lemma run_target_tasks:
  "run_target P tgt c w = (r, c', w') \<Longrightarrow> spawner c' = spawner c \<and> destroyer c' = destroyer c"
  by (cases tgt) (auto simp: run_target_def dest: spawn_body_tasks destroy_body_tasks)

lemma thread_join_exc:
  "thread_join P k t c w = (r, c', w') \<Longrightarrow>
   exc (spawner c') = exc (spawner c) \<and> exc (destroyer c') = exc (destroyer c) \<and>
   (r = Inr () \<or> r = Inl join_error)"
  by (cases "status t"; cases k)
     (auto simp: thread_join_def get_task_def set_task_def join_error_def
           split: prod.splits dest: run_target_tasks)

lemma run_thread_exc_clear:
  assumes "exc_clear c" and "RayCluster__run_thread P wait k c w = (r, c', w')"
  shows "exc_clear c' \<and> (r = Inr () \<or> r = Inl join_error)"
proof (cases wait)
  case False
  with assms show ?thesis
    by (cases k) (auto simp: RayCluster__run_thread_def exc_clear_def get_task_def set_task_def Let_def)
next
  case True
  define t where "t = (case thread (get_task k c) of None \<Rightarrow> Thread (target (get_task k c)) | Some t' \<Rightarrow> t')"
  define c2 where "c2 = set_task k ((get_task k (set_task k ((get_task k c)\<lparr>thread := Some t\<rparr>) c))\<lparr>silent := True\<rparr>)
                          (set_task k ((get_task k c)\<lparr>thread := Some t\<rparr>) c)"
  obtain r3 c3 w3 where j: "thread_join P k t c2 w = (r3, c3, w3)"
    by (cases "thread_join P k t c2 w") auto
  have c2: "exc_clear c2"
    using assms(1) by (cases k) (auto simp: c2_def exc_clear_def get_task_def set_task_def)
  from thread_join_exc [OF j] c2 have c3: "exc_clear c3" and r3: "r3 = Inr () \<or> r3 = Inl join_error"
    by (auto simp: exc_clear_def)
  have eq: "RayCluster__run_thread P True k c w =
      (case thread_join P k t c2 w of
         (Inl e, c3, w3) \<Rightarrow> (Inl e, c3, w3)
       | (Inr u, c3, w3) \<Rightarrow>
           (case exc (get_task k c3) of
              Some e \<Rightarrow> (Inl e, set_task k ((get_task k c3)\<lparr>exc := None\<rparr>) c3, w3)
            | None \<Rightarrow> (Inr (), set_task k ((get_task k c3)\<lparr>exc := None\<rparr>) c3, w3)))"
    unfolding RayCluster__run_thread_def Let_def t_def c2_def by simp
  from assms(2) True have "RayCluster__run_thread P True k c w = (r, c', w')"
    by simp
  with eq j c3 r3 show ?thesis
    by (cases k; cases r3) (auto simp: exc_clear_def get_task_def set_task_def)
qed

lemma step_exc_clear:
  assumes "exc_clear c" and "step P x c w = (r, c', w')"
  shows "exc_clear c' \<and> wait_result_ok x r"
proof (cases x)
  case (Op_spawn wait)
  obtain r1 c1 w1 where s: "RayCluster__run_thread P wait Spawner c w = (r1, c1, w1)"
    by (cases "RayCluster__run_thread P wait Spawner c w") auto
  from run_thread_exc_clear [OF assms(1) s] assms(2) Op_spawn s show ?thesis
    by (auto simp: step_def RayCluster_spawn_def wait_result_ok_def)
next
  case (Op_destroy wait)
  obtain r1 c1 w1 where s: "RayCluster__run_thread P wait Destroyer c w = (r1, c1, w1)"
    by (cases "RayCluster__run_thread P wait Destroyer c w") auto
  from run_thread_exc_clear [OF assms(1) s] assms(2) Op_destroy s show ?thesis
    by (auto simp: step_def RayCluster_destroy_def wait_result_ok_def)
next
  case Op_get_connection_details
  with assms show ?thesis
    by (auto simp: step_def wait_result_ok_def split: prod.splits)
next
  case Op_get_main_python
  with assms show ?thesis
    by (auto simp: step_def wait_result_ok_def)
qed

lemma run_ops_exc_clear:
  "exc_clear c \<Longrightarrow> run_ops P xs c w = (rs, c', w') \<Longrightarrow> exc_clear c' \<and> list_all2 wait_result_ok xs rs"
proof (induction xs arbitrary: c w rs c' w')
  case Nil
  then show ?case by simp
next
  case (Cons x xs)
  obtain r c1 w1 where s: "step P x c w = (r, c1, w1)"
    by (cases "step P x c w") auto
  obtain rs1 c2 w2 where t: "run_ops P xs c1 w1 = (rs1, c2, w2)"
    by (cases "run_ops P xs c1 w1") auto
  from step_exc_clear [OF Cons.prems(1) s] have c1: "exc_clear c1" and r: "wait_result_ok x r"
    by auto
  from Cons.IH [OF c1 t] Cons.prems(2) s t r show ?case
    by auto
qed

lemma init_exc_clear:
  "RayCluster_init P sp w = (Inr c, w') \<Longrightarrow> exc_clear c"
  by (auto simp: RayCluster_init_def exc_clear_def ThreadTask_def
           split: sum.splits prod.splits option.splits)


text \<open>
  Claim C10. The constructor leaves the \<open>exc\<close> field of both tasks at \<open>None\<close>, and from any
  object where both are \<open>None\<close> (whatever state its threads are in) every sequence of calls
  leaves both at \<open>None\<close>; each \<^verbatim>\<open>spawn\<close> or \<^verbatim>\<open>destroy\<close> in the sequence either returns
  normally or raises the error of joining a never-started thread, so the re-raise at the
  end of the wait path never fires. A thread body whose provisioning call raises returns
  normally, leaves the task's \<open>exc\<close> as it was, and stores the wrapped error in the
  cluster's own \<open>spawn_exc\<close> or \<open>destroy_exc\<close>.
\<close>

theorem task_exc_stays_none:
  "(RayCluster_init P sp w0 = (Inr c, w) \<longrightarrow> exc (spawner c) = None \<and> exc (destroyer c) = None) \<and>
   (exc (spawner c) = None \<and> exc (destroyer c) = None \<longrightarrow>
      (case run_ops P xs c w of
         (rs, c', w') \<Rightarrow>
           exc (spawner c') = None \<and> exc (destroyer c') = None \<and>
           list_all2 wait_result_ok xs rs)) \<and>
   (fst (create_or_update_cluster P (config_file c) (files w)) = Some ex \<longrightarrow>
      (case RayCluster__spawn P c w of
         (r, c', w') \<Rightarrow>
           r = Inr () \<and> exc (spawner c') = exc (spawner c) \<and>
           spawn_exc c' = Some (CannotSpawnCluster ''Cannot spawn cluster'' ex))) \<and>
   (fst (teardown_cluster P (config_file c) (files w)) = Some ex \<longrightarrow>
      (case RayCluster__destroy P c w of
         (r, c', w') \<Rightarrow>
           r = Inr () \<and> exc (destroyer c') = exc (destroyer c) \<and>
           destroy_exc c' = Some (CannotDestroyCluster ''Cannot destroy cluster'' ex)))"
proof (intro conjI impI)
  assume "RayCluster_init P sp w0 = (Inr c, w)"
  then have "exc_clear c" by (rule init_exc_clear)
  then show "exc (spawner c) = None" and "exc (destroyer c) = None"
    by (simp_all add: exc_clear_def)
next
  assume "exc (spawner c) = None \<and> exc (destroyer c) = None"
  then have clear: "exc_clear c" by (simp add: exc_clear_def)
  obtain rs c' w' where run: "run_ops P xs c w = (rs, c', w')"
    by (cases "run_ops P xs c w") auto
  from run_ops_exc_clear [OF clear run]
  show "case run_ops P xs c w of
          (rs, c', w') \<Rightarrow>
            exc (spawner c') = None \<and> exc (destroyer c') = None \<and>
            list_all2 wait_result_ok xs rs"
    by (simp add: run exc_clear_def)
next
  assume "fst (create_or_update_cluster P (config_file c) (files w)) = Some ex"
  then show "case RayCluster__spawn P c w of
          (r, c', w') \<Rightarrow>
            r = Inr () \<and> exc (spawner c') = exc (spawner c) \<and>
            spawn_exc c' = Some (CannotSpawnCluster ''Cannot spawn cluster'' ex)"
    by (simp add: spawn_body_failure)
next
  assume "fst (teardown_cluster P (config_file c) (files w)) = Some ex"
  then show "case RayCluster__destroy P c w of
          (r, c', w') \<Rightarrow>
            r = Inr () \<and> exc (destroyer c') = exc (destroyer c) \<and>
            destroy_exc c' = Some (CannotDestroyCluster ''Cannot destroy cluster'' ex)"
    by (simp add: destroy_body_failure)
qed

theorem task_exc_stays_none_witness:
  "exc (spawner demo_cluster_started) = None \<and>
   exc (destroyer demo_cluster_started) = None \<and>
   fst (create_or_update_cluster (demo_platform (Some (External ''quota'')))
          (config_file demo_cluster_started) (files demo_world_built)) = Some (External ''quota'') \<and>
   list_all2 wait_result_ok [Op_spawn True, Op_destroy True]
     (fst (run_ops (demo_platform (Some (External ''quota''))) [Op_spawn True, Op_destroy True]
             demo_cluster_started demo_world_built)) \<and>
   exc (spawner (fst (snd (run_ops (demo_platform (Some (External ''quota'')))
             [Op_spawn True, Op_destroy True] demo_cluster_started demo_world_built)))) = None \<and>
   spawn_exc (fst (snd (RayCluster__spawn (demo_platform (Some (External ''quota'')))
             demo_cluster_started demo_world_built))) =
     Some (CannotSpawnCluster ''Cannot spawn cluster'' (External ''quota''))"
proof -
  note t = task_exc_stays_none
          [where P = "demo_platform (Some (External ''quota''))" and c = demo_cluster_started
             and w = demo_world_built and xs = "[Op_spawn True, Op_destroy True]"
             and ex = "External ''quota''"]
  have h1: "exc (spawner demo_cluster_started) = None \<and> exc (destroyer demo_cluster_started) = None"
    by (simp add: demo_cluster_started_def ThreadTask_def)
  have h2: "fst (create_or_update_cluster (demo_platform (Some (External ''quota'')))
          (config_file demo_cluster_started) (files demo_world_built)) = Some (External ''quota'')"
    by (simp add: demo_platform_def)
  from t [THEN conjunct2, THEN conjunct1, THEN mp, OF h1] have
    "case run_ops (demo_platform (Some (External ''quota''))) [Op_spawn True, Op_destroy True]
            demo_cluster_started demo_world_built of
       (rs, c', w') \<Rightarrow>
         exc (spawner c') = None \<and> exc (destroyer c') = None \<and>
         list_all2 wait_result_ok [Op_spawn True, Op_destroy True] rs"
    .
  moreover from t [THEN conjunct2, THEN conjunct2, THEN conjunct1, THEN mp, OF h2] have
    "case RayCluster__spawn (demo_platform (Some (External ''quota'')))
            demo_cluster_started demo_world_built of
       (r, c', w') \<Rightarrow>
         r = Inr () \<and> exc (spawner c') = exc (spawner demo_cluster_started) \<and>
         spawn_exc c' = Some (CannotSpawnCluster ''Cannot spawn cluster'' (External ''quota''))"
    .
  ultimately show ?thesis
    using h1 h2 by (simp add: case_prod_beta)
qed

section \<open>The concrete object is the one the constructor builds\<close>

lemma demo_make_config:
  "RayCluster__make_config (demo_platform oc) (demo_spec ''aws'') demo_world = Inr demo_config"
  by (simp add: RayCluster__make_config_def demo_platform_def demo_spec_def demo_world_def
        read_file_def and_then_def setitem_def setitem2_def getitem_def demo_template_def
        demo_config_def truthy_def yaml_of_opt_def RayCluster__instance_key_def)

lemma demo_save_config:
  "RayCluster__save_config (demo_platform oc) demo_config demo_world =
     (Inr ''/home/u/.modin/cloud/config-0123.yml'', demo_world_built)"
  by (simp add: RayCluster__save_config_def demo_platform_def demo_world_def demo_world_built_def
        os_makedirs_def write_file_def os_path_exists_def config_entry_def os_path_join_def
        Let_def upt_rec [of 4] fun_upd_twist)

lemma demo_init:
  "RayCluster_init (demo_platform oc) (demo_spec ''aws'') demo_world =
     (Inr (demo_cluster False), demo_world_built)"
proof -
  have "credentials_file (provider (demo_spec ''aws'')) = None"
    by (simp add: demo_spec_def)
  then show ?thesis
    by (simp add: RayCluster_init_def demo_make_config demo_save_config demo_cluster_def)
qed

section \<open>Waiting on a thread that was never started\<close>

text \<open>Waiting on a task whose thread was never started.\<close>

lemma run_thread_wait_unstarted:
  assumes "case thread (get_task k c) of None \<Rightarrow> True | Some t \<Rightarrow> status t = Initial"
  shows "RayCluster__run_thread P True k c w =
     (Inl join_error,
      set_task k ((get_task k c)
        \<lparr>thread := Some (case thread (get_task k c) of
                          None \<Rightarrow> Thread (target (get_task k c))
                        | Some t \<Rightarrow> t),
         silent := True\<rparr>) c,
      w)"
  using assms
  by (cases k)
     (auto simp: RayCluster__run_thread_def thread_join_def get_task_def set_task_def
                 Thread_def Let_def split: option.splits)

lemma run_thread_nowait:
  "RayCluster__run_thread P False k c w =
     (Inr (),
      set_task k ((get_task k c)
        \<lparr>thread := Some (case thread (get_task k c) of
                          None \<Rightarrow> Thread (target (get_task k c))
                        | Some t \<Rightarrow> t)\<rparr>) c,
      w)"
  by (simp add: RayCluster__run_thread_def Let_def)

lemma step_unstarted:
  assumes "unstarted (spawner c)" and "unstarted (destroyer c)" and "\<not> ready c"
    and "step P x c w = (r, c', w')"
  shows "unstarted (spawner c') \<and> unstarted (destroyer c') \<and> \<not> ready c' \<and>
         w' = w \<and> r = unprovisioned_result x"
proof (cases x)
  case (Op_spawn wait)
  show ?thesis
  proof (cases wait)
    case True
    have "case thread (get_task Spawner c) of None \<Rightarrow> True | Some t \<Rightarrow> status t = Initial"
      using assms(1) by (simp add: unstarted_def get_task_def)
    from run_thread_wait_unstarted [OF this, of P w] assms Op_spawn True show ?thesis
      by (auto simp: step_def RayCluster_spawn_def unprovisioned_result_def unstarted_def
            get_task_def set_task_def Thread_def split: option.splits)
  next
    case False
    with assms Op_spawn show ?thesis
      by (auto simp: step_def RayCluster_spawn_def run_thread_nowait unprovisioned_result_def
            unstarted_def get_task_def set_task_def Thread_def split: option.splits)
  qed
next
  case (Op_destroy wait)
  show ?thesis
  proof (cases wait)
    case True
    have "case thread (get_task Destroyer c) of None \<Rightarrow> True | Some t \<Rightarrow> status t = Initial"
      using assms(2) by (simp add: unstarted_def get_task_def)
    from run_thread_wait_unstarted [OF this, of P w] assms Op_destroy True show ?thesis
      by (auto simp: step_def RayCluster_destroy_def unprovisioned_result_def unstarted_def
            get_task_def set_task_def Thread_def split: option.splits)
  next
    case False
    with assms Op_destroy show ?thesis
      by (auto simp: step_def RayCluster_destroy_def run_thread_nowait unprovisioned_result_def
            unstarted_def get_task_def set_task_def Thread_def split: option.splits)
  qed
next
  case Op_get_connection_details
  with assms show ?thesis
    by (auto simp: step_def RayCluster_get_connection_details_def unprovisioned_result_def)
next
  case Op_get_main_python
  with assms show ?thesis
    by (auto simp: step_def unprovisioned_result_def)
qed

lemma run_ops_unstarted:
  "unstarted (spawner c) \<Longrightarrow> unstarted (destroyer c) \<Longrightarrow> \<not> ready c \<Longrightarrow>
   run_ops P xs c w = (rs, c', w') \<Longrightarrow>
   unstarted (spawner c') \<and> unstarted (destroyer c') \<and> \<not> ready c' \<and>
   w' = w \<and> rs = map unprovisioned_result xs"
proof (induction xs arbitrary: c rs)
  case Nil
  then show ?case by simp
next
  case (Cons x xs)
  obtain r c1 w1 where s: "step P x c w = (r, c1, w1)"
    by (cases "step P x c w") auto
  from step_unstarted [OF Cons.prems(1-3) s]
  have inv: "unstarted (spawner c1)" "unstarted (destroyer c1)" "\<not> ready c1"
    and w1: "w1 = w" and r: "r = unprovisioned_result x"
    by auto
  obtain rs1 where t: "run_ops P xs c1 w = (rs1, c', w')" and rs: "rs = r # rs1"
    using Cons.prems(4) s w1 by (auto split: prod.splits)
  from Cons.IH [OF inv t] r rs show ?case
    by simp
qed

text \<open>
  On an object the constructor returned, no sequence of calls reaches the provisioning
  tool or changes anything outside the object, \<open>ready\<close> stays false, every waiting
  \<^verbatim>\<open>spawn\<close> or \<^verbatim>\<open>destroy\<close> raises the join error, and every request for connection details
  fails its assertion.
\<close>

lemma constructed_object_never_provisions:
  assumes "RayCluster_init P sp w0 = (Inr c, w)" and "run_ops P xs c w = (rs, c', w')"
  shows "w' = w \<and> \<not> ready c' \<and> rs = map unprovisioned_result xs"
proof -
  from assms(1) have "unstarted (spawner c)" "unstarted (destroyer c)" "\<not> ready c"
    by (auto simp: RayCluster_init_def unstarted_def ThreadTask_def
             split: sum.splits prod.splits option.splits)
  from run_ops_unstarted [OF this assms(2)] show ?thesis
    by simp
qed

text \<open>
  Claim C1, on the code. The constructor's object, with a provisioning tool that would
  fail: \<^verbatim>\<open>spawn(wait=True)\<close> creates the thread object, marks the task silent and raises
  the \<^verbatim>\<open>RuntimeError\<close> of joining a thread that was never started; the spawn body has
  not run, so no provisioning call was made and no \<open>CannotSpawnCluster\<close> exists to
  re-raise. On the same object with a spawner thread that had been started, the join runs
  the body, whose error goes to \<open>spawn_exc\<close>, and the call returns normally: the error
  is not re-raised either.
\<close>

theorem spawn_wait_on_new_object:
  "RayCluster_init (demo_platform (Some (External ''quota''))) (demo_spec ''aws'') demo_world =
     (Inr (demo_cluster False), demo_world_built) \<and>
   RayCluster_spawn (demo_platform (Some (External ''quota''))) True (demo_cluster False)
       demo_world_built =
     (Inl (RuntimeError ''cannot join thread before it is started''),
      (demo_cluster False)\<lparr>spawner :=
         \<lparr>target = Target_spawn,
          thread = Some \<lparr>thread_target = Target_spawn, status = Initial\<rparr>,
          exc = None, silent = True\<rparr>\<rparr>,
      demo_world_built) \<and>
   gateway_log demo_world_built = [] \<and>
   RayCluster_spawn (demo_platform (Some (External ''quota''))) True demo_cluster_started
       demo_world_built =
     (Inr (),
      demo_cluster_started\<lparr>spawner :=
         \<lparr>target = Target_spawn,
          thread = Some \<lparr>thread_target = Target_spawn, status = Stopped\<rparr>,
          exc = None, silent = True\<rparr>,
         spawn_exc := Some (CannotSpawnCluster ''Cannot spawn cluster'' (External ''quota''))\<rparr>,
      demo_world_built\<lparr>gateway_log := [Create_or_update ''/home/u/.modin/cloud/config-0123.yml'']\<rparr>)"
proof (intro conjI)
  show "RayCluster_init (demo_platform (Some (External ''quota''))) (demo_spec ''aws'') demo_world =
     (Inr (demo_cluster False), demo_world_built)"
    by (rule demo_init)
  show "RayCluster_spawn (demo_platform (Some (External ''quota''))) True (demo_cluster False)
       demo_world_built =
     (Inl (RuntimeError ''cannot join thread before it is started''),
      (demo_cluster False)\<lparr>spawner :=
         \<lparr>target = Target_spawn,
          thread = Some \<lparr>thread_target = Target_spawn, status = Initial\<rparr>,
          exc = None, silent = True\<rparr>\<rparr>,
      demo_world_built)"
    by (simp add: RayCluster_spawn_def run_thread_wait_unstarted get_task_def set_task_def
          demo_cluster_def ThreadTask_def Thread_def join_error_def)
  show "gateway_log demo_world_built = []"
    by (simp add: demo_world_built_def)
  show "RayCluster_spawn (demo_platform (Some (External ''quota''))) True demo_cluster_started
       demo_world_built =
     (Inr (),
      demo_cluster_started\<lparr>spawner :=
         \<lparr>target = Target_spawn,
          thread = Some \<lparr>thread_target = Target_spawn, status = Stopped\<rparr>,
          exc = None, silent = True\<rparr>,
         spawn_exc := Some (CannotSpawnCluster ''Cannot spawn cluster'' (External ''quota''))\<rparr>,
      demo_world_built\<lparr>gateway_log := [Create_or_update ''/home/u/.modin/cloud/config-0123.yml'']\<rparr>)"
    by (simp add: RayCluster_spawn_def RayCluster__run_thread_def thread_join_def run_target_def
          RayCluster__spawn_def get_task_def set_task_def demo_cluster_started_def
          demo_platform_def demo_world_built_def Let_def)
qed

text \<open>
  Claim C2, on the code. On the constructor's object, with a provisioning tool that would
  fail, \<^verbatim>\<open>spawn(wait=False)\<close> then \<^verbatim>\<open>destroy(wait=False)\<close> both return normally and each
  leaves its task with a thread still in its initial state: neither background task was
  started, no provisioning call was made, and nothing was written to standard error.
\<close>

theorem nowait_calls_on_new_object:
  "RayCluster_init (demo_platform (Some (External ''quota''))) (demo_spec ''aws'') demo_world =
     (Inr (demo_cluster False), demo_world_built) \<and>
   run_ops (demo_platform (Some (External ''quota''))) [Op_spawn False, Op_destroy False]
       (demo_cluster False) demo_world_built =
     ([Inr Ret_none, Inr Ret_none],
      (demo_cluster False)
        \<lparr>spawner := \<lparr>target = Target_spawn,
                      thread = Some \<lparr>thread_target = Target_spawn, status = Initial\<rparr>,
                      exc = None, silent = False\<rparr>,
         destroyer := \<lparr>target = Target_destroy,
                        thread = Some \<lparr>thread_target = Target_destroy, status = Initial\<rparr>,
                        exc = None, silent = False\<rparr>\<rparr>,
      demo_world_built) \<and>
   gateway_log demo_world_built = [] \<and> stderr demo_world_built = []"
  by (simp add: demo_init step_def RayCluster_spawn_def RayCluster_destroy_def run_thread_nowait
        get_task_def set_task_def demo_cluster_def ThreadTask_def Thread_def demo_world_built_def)

section \<open>Connection details\<close>

lemma connection_details_when_ready:
  assumes "ready c"
    and "getitem2 (config c) ''auth'' ''ssh_user'' = Inr u"
    and "getitem2 (config c) ''auth'' ''ssh_private_key'' = Inr kf"
    and "get_head_node_ip P (config_file c) (files w) = Inr a"
  shows "RayCluster_get_connection_details P c w =
     (Inr \<lparr>user_name = u, key_file = kf, address = a, port = 22\<rparr>,
      w\<lparr>gateway_log := gateway_log w @ [Head_node_ip (config_file c)]\<rparr>)"
  using assms by (simp add: RayCluster_get_connection_details_def ConnectionDetails_def Let_def)

lemma connection_details_when_not_ready:
  "\<not> ready c \<Longrightarrow>
   RayCluster_get_connection_details P c w =
     (Inl (AssertionError ''Cluster is not ready, cannot get connection details''), w)"
  by (simp add: RayCluster_get_connection_details_def)

text \<open>
  Claim C3, on the code. On the constructor's object, with a provisioning tool whose
  call would succeed, \<^verbatim>\<open>spawn(wait=True)\<close> raises the join error without calling the tool,
  and the request for connection details that follows fails its \<open>ready\<close> assertion.
\<close>

theorem connection_details_after_spawn_wait:
  "RayCluster_init (demo_platform None) (demo_spec ''aws'') demo_world =
     (Inr (demo_cluster False), demo_world_built) \<and>
   create_or_update_cluster (demo_platform None) (config_file (demo_cluster False))
       (files demo_world_built) = (None, files demo_world_built) \<and>
   fst (run_ops (demo_platform None) [Op_spawn True, Op_get_connection_details]
          (demo_cluster False) demo_world_built) =
     [Inl (RuntimeError ''cannot join thread before it is started''),
      Inl (AssertionError ''Cluster is not ready, cannot get connection details'')] \<and>
   gateway_log (snd (snd (run_ops (demo_platform None) [Op_spawn True, Op_get_connection_details]
          (demo_cluster False) demo_world_built))) = []"
proof -
  obtain rs c' w' where run:
    "run_ops (demo_platform None) [Op_spawn True, Op_get_connection_details] (demo_cluster False)
       demo_world_built = (rs, c', w')"
    by (cases "run_ops (demo_platform None) [Op_spawn True, Op_get_connection_details]
       (demo_cluster False) demo_world_built") auto
  have "create_or_update_cluster (demo_platform None) (config_file (demo_cluster False))
       (files demo_world_built) = (None, files demo_world_built)"
    by (simp add: demo_platform_def)
  with constructed_object_never_provisions [OF demo_init run] show ?thesis
    unfolding run
    by (simp add: demo_init unprovisioned_result_def join_error_def demo_world_built_def)
qed

text \<open>
  Claim C7, on the code. On the constructor's object, with a provisioning tool whose
  call would succeed, \<^verbatim>\<open>spawn(wait=True)\<close> twice in a row: no provisioning call is made
  by either, and the second call raises the join error just as the first did.
\<close>

theorem spawn_wait_twice_on_new_object:
  "RayCluster_init (demo_platform None) (demo_spec ''aws'') demo_world =
     (Inr (demo_cluster False), demo_world_built) \<and>
   fst (run_ops (demo_platform None) [Op_spawn True, Op_spawn True] (demo_cluster False)
          demo_world_built) =
     [Inl (RuntimeError ''cannot join thread before it is started''),
      Inl (RuntimeError ''cannot join thread before it is started'')] \<and>
   gateway_log (snd (snd (run_ops (demo_platform None) [Op_spawn True, Op_spawn True]
          (demo_cluster False) demo_world_built))) = []"
proof -
  obtain rs c' w' where run:
    "run_ops (demo_platform None) [Op_spawn True, Op_spawn True] (demo_cluster False)
       demo_world_built = (rs, c', w')"
    by (cases "run_ops (demo_platform None) [Op_spawn True, Op_spawn True] (demo_cluster False)
       demo_world_built") auto
  from constructed_object_never_provisions [OF demo_init run] show ?thesis
    unfolding run
    by (simp add: demo_init unprovisioned_result_def join_error_def demo_world_built_def)
qed

section \<open>The built configuration\<close>

text \<open>Reading a document back after an assignment.\<close>

lemma and_then_InrE:
  assumes "and_then m f = Inr y"
  obtains x where "m = Inr x" and "f x = Inr y"
  using assms by (cases m) (simp_all add: and_then_def)

lemma getitem_setitem:
  "setitem d k v = Inr d' \<Longrightarrow> getitem d' j = (if j = k then Inr v else getitem d j)"
  by (cases d) (auto simp: setitem_def getitem_def update_conv')

lemma getitem2_setitem:
  "setitem d k v = Inr d' \<Longrightarrow> j1 \<noteq> k \<Longrightarrow> getitem2 d' j1 j2 = getitem2 d j1 j2"
  by (simp add: getitem2_def getitem_setitem)

lemma getitem_setitem2:
  "setitem2 d k1 k2 v = Inr d' \<Longrightarrow> j \<noteq> k1 \<Longrightarrow> getitem d' j = getitem d j"
  by (auto simp: setitem2_def getitem_setitem split: sum.splits)

lemma getitem2_setitem2:
  "setitem2 d k1 k2 v = Inr d' \<Longrightarrow>
   getitem2 d' j1 j2 = (if j1 = k1 \<and> j2 = k2 then Inr v else getitem2 d j1 j2)"
  by (auto simp: setitem2_def getitem2_def getitem_setitem split: sum.splits)


lemma setitem_dict:
  "setitem (YDict kvs) k v = Inr (YDict (AList.update k v kvs))"
  by (simp add: setitem_def)

lemma setitem2_dict:
  "map_of kvs k1 = Some (YDict sub) \<Longrightarrow>
   setitem2 (YDict kvs) k1 k2 v =
     Inr (YDict (AList.update k1 (YDict (AList.update k2 v sub)) kvs))"
  by (simp add: setitem2_def getitem_def setitem_def)

lemma make_config_steps:
  assumes "RayCluster__make_config P sp w = Inr cfg"
  obtains body c0 c1 c2 c3 c4 c5 c6 c7 c8 c9 ik c10 where
    "read_file w (base_config P) = Inr body"
    "yaml_safe_load P body = Inr c0"
    "setitem c0 ''cluster_name'' (YStr (cluster_name sp)) = Inr c1"
    "setitem c1 ''min_workers'' (YInt (worker_count sp)) = Inr c2"
    "setitem c2 ''max_workers'' (YInt (worker_count sp)) = Inr c3"
    "setitem c3 ''initial_workers'' (YInt (worker_count sp)) = Inr c4"
    "setitem2 c4 ''provider'' ''type'' (YStr (name (provider sp))) = Inr c5"
    "(if truthy (region (provider sp))
      then setitem2 c5 ''provider'' ''region'' (yaml_of_opt (region (provider sp)))
      else Inr c5) = Inr c6"
    "(if truthy (zone (provider sp))
      then setitem2 c6 ''provider'' ''zone'' (yaml_of_opt (zone (provider sp)))
      else Inr c6) = Inr c7"
    "setitem2 c7 ''auth'' ''ssh_user'' (YStr ''modin'') = Inr c8"
    "(case environ w ''MODIN_SOCKS_PROXY'' of
        None \<Rightarrow> Inr c8
      | Some socks_proxy \<Rightarrow>
          if socks_proxy \<noteq> []
          then setitem2 c8 ''auth'' ''ssh_proxy_command''
                 (YStr (''nc -x '' @ shlex_quote P socks_proxy @ '' %h %p''))
          else Inr c8) = Inr c9"
    "RayCluster__instance_key P (name (provider sp)) = Some ik"
    "setitem2 c9 ''head_node'' ik (yaml_of_opt (head_node_type sp)) = Inr c10"
    "setitem2 c10 ''worker_nodes'' ik (yaml_of_opt (worker_node_type sp)) = Inr cfg"
  using assms unfolding RayCluster__make_config_def
  by (elim and_then_InrE) (simp split: option.splits)

text \<open>When the builder returns a document: what it needs, and that this is enough.\<close>

lemma has_section_dict:
  "has_section d k \<longleftrightarrow> (\<exists>kvs sub. d = YDict kvs \<and> map_of kvs k = Some (YDict sub))"
  by (auto simp: has_section_def getitem_def split: yaml.splits option.splits sum.splits)

lemma setitem2_section:
  "setitem2 d k1 k2 v = Inr d' \<Longrightarrow> has_section d k1"
  by (auto simp: setitem2_def setitem_def has_section_def split: sum.splits yaml.splits)

lemma make_config_builds:
  assumes "template_builds P w" and "RayCluster__instance_key P (name (provider sp)) = Some ik"
  shows "\<exists>cfg. RayCluster__make_config P sp w = Inr cfg"
proof -
  from assms(1) obtain body kvs pk ak hk wk where
    t: "read_file w (base_config P) = Inr body" "yaml_safe_load P body = Inr (YDict kvs)"
       "map_of kvs ''provider'' = Some (YDict pk)" "map_of kvs ''auth'' = Some (YDict ak)"
       "map_of kvs ''head_node'' = Some (YDict hk)" "map_of kvs ''worker_nodes'' = Some (YDict wk)"
    by (auto simp: template_builds_def has_section_dict split: sum.splits)
  show ?thesis
    using assms(2) t
    by (simp add: RayCluster__make_config_def and_then_def setitem_dict setitem2_dict
          update_conv' split: option.splits)
qed


lemma has_section_setitem:
  "setitem d k v = Inr d' \<Longrightarrow> j \<noteq> k \<Longrightarrow> has_section d' j = has_section d j"
  by (simp add: has_section_def getitem_setitem)

lemma has_section_setitem2:
  "setitem2 d k1 k2 v = Inr d' \<Longrightarrow> j \<noteq> k1 \<Longrightarrow> has_section d' j = has_section d j"
  by (simp add: has_section_def getitem_setitem2)

lemma make_config_needs:
  assumes "RayCluster__make_config P sp w = Inr cfg"
  shows "template_builds P w \<and> RayCluster__instance_key P (name (provider sp)) \<noteq> None"
proof -
  from assms obtain body c0 c1 c2 c3 c4 c5 c6 c7 c8 c9 ik c10 where
    s0: "read_file w (base_config P) = Inr body" "yaml_safe_load P body = Inr c0"
    and s1: "setitem c0 ''cluster_name'' (YStr (cluster_name sp)) = Inr c1"
    and s2: "setitem c1 ''min_workers'' (YInt (worker_count sp)) = Inr c2"
    and s3: "setitem c2 ''max_workers'' (YInt (worker_count sp)) = Inr c3"
    and s4: "setitem c3 ''initial_workers'' (YInt (worker_count sp)) = Inr c4"
    and s5: "setitem2 c4 ''provider'' ''type'' (YStr (name (provider sp))) = Inr c5"
    and s6: "(if truthy (region (provider sp))
      then setitem2 c5 ''provider'' ''region'' (yaml_of_opt (region (provider sp)))
      else Inr c5) = Inr c6"
    and s7: "(if truthy (zone (provider sp))
      then setitem2 c6 ''provider'' ''zone'' (yaml_of_opt (zone (provider sp)))
      else Inr c6) = Inr c7"
    and s8: "setitem2 c7 ''auth'' ''ssh_user'' (YStr ''modin'') = Inr c8"
    and s9: "(case environ w ''MODIN_SOCKS_PROXY'' of
        None \<Rightarrow> Inr c8
      | Some socks_proxy \<Rightarrow>
          if socks_proxy \<noteq> []
          then setitem2 c8 ''auth'' ''ssh_proxy_command''
                 (YStr (''nc -x '' @ shlex_quote P socks_proxy @ '' %h %p''))
          else Inr c8) = Inr c9"
    and ik: "RayCluster__instance_key P (name (provider sp)) = Some ik"
    and s10: "setitem2 c9 ''head_node'' ik (yaml_of_opt (head_node_type sp)) = Inr c10"
    and s11: "setitem2 c10 ''worker_nodes'' ik (yaml_of_opt (worker_node_type sp)) = Inr cfg"
    by (rule make_config_steps)
  have top: "has_section c4 j = has_section c0 j"
    if "j \<noteq> ''cluster_name''" "j \<noteq> ''min_workers''" "j \<noteq> ''max_workers''"
       "j \<noteq> ''initial_workers''" for j
    using s1 s2 s3 s4 that by (simp add: has_section_setitem)
  have prov: "has_section c7 j = has_section c4 j" if "j \<noteq> ''provider''" for j
  proof -
    have "has_section c5 j = has_section c4 j"
      using s5 that by (simp add: has_section_setitem2)
    moreover have "has_section c6 j = has_section c5 j"
      using s6 that by (auto simp: has_section_setitem2 split: if_splits)
    moreover have "has_section c7 j = has_section c6 j"
      using s7 that by (auto simp: has_section_setitem2 split: if_splits)
    ultimately show ?thesis by simp
  qed
  have auth: "has_section c9 j = has_section c7 j" if "j \<noteq> ''auth''" for j
  proof -
    have "has_section c8 j = has_section c7 j"
      using s8 that by (simp add: has_section_setitem2)
    moreover have "has_section c9 j = has_section c8 j"
      using s9 that by (auto simp: has_section_setitem2 split: option.splits if_splits)
    ultimately show ?thesis by simp
  qed
  have "has_section c4 ''provider''"
    using s5 by (rule setitem2_section)
  then have p: "has_section c0 ''provider''"
    by (simp add: top)
  have "has_section c7 ''auth''"
    using s8 by (rule setitem2_section)
  then have a: "has_section c0 ''auth''"
    by (simp add: prov top)
  have "has_section c9 ''head_node''"
    using s10 by (rule setitem2_section)
  then have h: "has_section c0 ''head_node''"
    by (simp add: auth prov top)
  have "has_section c10 ''worker_nodes''"
    using s11 by (rule setitem2_section)
  then have "has_section c9 ''worker_nodes''"
    using s10 by (simp add: has_section_setitem2)
  then have n: "has_section c0 ''worker_nodes''"
    by (simp add: auth prov top)
  from s0 p a h n ik show ?thesis
    by (simp add: template_builds_def)
qed

lemma make_config_builds_iff:
  "(\<exists>cfg. RayCluster__make_config P sp w = Inr cfg) \<longleftrightarrow>
   template_builds P w \<and> name (provider sp) = Provider_AWS P"
proof -
  have known: "RayCluster__instance_key P (name (provider sp)) \<noteq> None \<longleftrightarrow>
      name (provider sp) = Provider_AWS P"
    by (simp add: RayCluster__instance_key_def)
  show ?thesis
  proof
    assume "\<exists>cfg. RayCluster__make_config P sp w = Inr cfg"
    then obtain cfg where "RayCluster__make_config P sp w = Inr cfg" ..
    from make_config_needs [OF this] known
    show "template_builds P w \<and> name (provider sp) = Provider_AWS P"
      by simp
  next
    assume b: "template_builds P w \<and> name (provider sp) = Provider_AWS P"
    with known obtain ik where "RayCluster__instance_key P (name (provider sp)) = Some ik"
      by auto
    with b show "\<exists>cfg. RayCluster__make_config P sp w = Inr cfg"
      by (intro make_config_builds) simp_all
  qed
qed

text \<open>What every document the builder returns holds.\<close>

lemma make_config_fields:
  assumes "RayCluster__make_config P sp w = Inr cfg"
  shows "getitem cfg ''min_workers'' = Inr (YInt (worker_count sp)) \<and>
         getitem cfg ''max_workers'' = Inr (YInt (worker_count sp)) \<and>
         getitem cfg ''initial_workers'' = Inr (YInt (worker_count sp)) \<and>
         getitem2 cfg ''provider'' ''type'' = Inr (YStr (name (provider sp))) \<and>
         (\<not> truthy (region (provider sp)) \<longrightarrow>
            (\<exists>body c0. read_file w (base_config P) = Inr body \<and>
                       yaml_safe_load P body = Inr c0 \<and>
                       getitem2 cfg ''provider'' ''region'' = getitem2 c0 ''provider'' ''region''))"
proof -
  from assms obtain body c0 c1 c2 c3 c4 c5 c6 c7 c8 c9 ik c10 where
    s0: "read_file w (base_config P) = Inr body" "yaml_safe_load P body = Inr c0"
    and s1: "setitem c0 ''cluster_name'' (YStr (cluster_name sp)) = Inr c1"
    and s2: "setitem c1 ''min_workers'' (YInt (worker_count sp)) = Inr c2"
    and s3: "setitem c2 ''max_workers'' (YInt (worker_count sp)) = Inr c3"
    and s4: "setitem c3 ''initial_workers'' (YInt (worker_count sp)) = Inr c4"
    and s5: "setitem2 c4 ''provider'' ''type'' (YStr (name (provider sp))) = Inr c5"
    and s6: "(if truthy (region (provider sp))
      then setitem2 c5 ''provider'' ''region'' (yaml_of_opt (region (provider sp)))
      else Inr c5) = Inr c6"
    and s7: "(if truthy (zone (provider sp))
      then setitem2 c6 ''provider'' ''zone'' (yaml_of_opt (zone (provider sp)))
      else Inr c6) = Inr c7"
    and s8: "setitem2 c7 ''auth'' ''ssh_user'' (YStr ''modin'') = Inr c8"
    and s9: "(case environ w ''MODIN_SOCKS_PROXY'' of
        None \<Rightarrow> Inr c8
      | Some socks_proxy \<Rightarrow>
          if socks_proxy \<noteq> []
          then setitem2 c8 ''auth'' ''ssh_proxy_command''
                 (YStr (''nc -x '' @ shlex_quote P socks_proxy @ '' %h %p''))
          else Inr c8) = Inr c9"
    and s10: "setitem2 c9 ''head_node'' ik (yaml_of_opt (head_node_type sp)) = Inr c10"
    and s11: "setitem2 c10 ''worker_nodes'' ik (yaml_of_opt (worker_node_type sp)) = Inr cfg"
    by (rule make_config_steps)
  have top: "getitem cfg j = getitem c4 j"
    if "j \<noteq> ''provider''" "j \<noteq> ''auth''" "j \<noteq> ''head_node''" "j \<noteq> ''worker_nodes''" for j
  proof -
    have "getitem c5 j = getitem c4 j"
      using s5 that by (simp add: getitem_setitem2)
    moreover have "getitem c6 j = getitem c5 j"
      using s6 that by (auto simp: getitem_setitem2 split: if_splits)
    moreover have "getitem c7 j = getitem c6 j"
      using s7 that by (auto simp: getitem_setitem2 split: if_splits)
    moreover have "getitem c8 j = getitem c7 j"
      using s8 that by (simp add: getitem_setitem2)
    moreover have "getitem c9 j = getitem c8 j"
      using s9 that by (auto simp: getitem_setitem2 split: option.splits if_splits)
    moreover have "getitem c10 j = getitem c9 j"
      using s10 that by (simp add: getitem_setitem2)
    moreover have "getitem cfg j = getitem c10 j"
      using s11 that by (simp add: getitem_setitem2)
    ultimately show ?thesis by simp
  qed
  have prov: "getitem2 cfg ''provider'' j = getitem2 c6 ''provider'' j" if "j \<noteq> ''zone''" for j
  proof -
    have "getitem2 c7 ''provider'' j = getitem2 c6 ''provider'' j"
      using s7 that by (auto simp: getitem2_setitem2 split: if_splits)
    moreover have "getitem2 c8 ''provider'' j = getitem2 c7 ''provider'' j"
      using s8 by (simp add: getitem2_setitem2)
    moreover have "getitem2 c9 ''provider'' j = getitem2 c8 ''provider'' j"
      using s9 by (auto simp: getitem2_setitem2 split: option.splits if_splits)
    moreover have "getitem2 c10 ''provider'' j = getitem2 c9 ''provider'' j"
      using s10 by (simp add: getitem2_setitem2)
    moreover have "getitem2 cfg ''provider'' j = getitem2 c10 ''provider'' j"
      using s11 by (simp add: getitem2_setitem2)
    ultimately show ?thesis by simp
  qed
  have "getitem cfg ''min_workers'' = Inr (YInt (worker_count sp))"
    using s2 s3 s4 by (simp add: top getitem_setitem)
  moreover have "getitem cfg ''max_workers'' = Inr (YInt (worker_count sp))"
    using s3 s4 by (simp add: top getitem_setitem)
  moreover have "getitem cfg ''initial_workers'' = Inr (YInt (worker_count sp))"
    using s4 by (simp add: top getitem_setitem)
  moreover have "getitem2 cfg ''provider'' ''type'' = Inr (YStr (name (provider sp)))"
  proof -
    have "getitem2 c5 ''provider'' ''type'' = Inr (YStr (name (provider sp)))"
      using s5 by (simp add: getitem2_setitem2)
    moreover have "getitem2 c6 ''provider'' ''type'' = getitem2 c5 ''provider'' ''type''"
      using s6 by (auto simp: getitem2_setitem2 split: if_splits)
    ultimately show ?thesis by (simp add: prov)
  qed
  moreover have "getitem2 cfg ''provider'' ''region'' = getitem2 c0 ''provider'' ''region''"
    if "\<not> truthy (region (provider sp))"
  proof -
    have "c6 = c5" using s6 that by simp
    moreover have "getitem2 c5 ''provider'' ''region'' = getitem2 c4 ''provider'' ''region''"
      using s5 by (simp add: getitem2_setitem2)
    moreover have "getitem2 c4 ''provider'' ''region'' = getitem2 c0 ''provider'' ''region''"
      using s1 s2 s3 s4 by (simp add: getitem2_setitem)
    ultimately show ?thesis by (simp add: prov)
  qed
  ultimately show ?thesis
    using s0 by blast
qed

text \<open>
  Claim C8. The builder returns a document exactly when the template can be read and
  parsed and has dictionaries under \<open>provider\<close>, \<open>auth\<close>, \<open>head_node\<close> and \<open>worker_nodes\<close>,
  and the provider of the specification is the one in the instance-type table; so for
  every specification with that provider, whatever its names, worker count, region, zone
  and node types, a document is built. Every document the builder returns has
  \<open>min_workers\<close>, \<open>max_workers\<close> and \<open>initial_workers\<close> all equal to the worker count of the
  specification and \<open>provider.type\<close> equal to its provider name; and when the
  specification's region is unset (\<^verbatim>\<open>None\<close> or empty), looking up \<open>provider.region\<close> in the
  built document gives exactly what it gives in the parsed template, a missing key
  included.
\<close>

theorem make_config_workers_and_provider:
  "((\<exists>cfg. RayCluster__make_config P sp w = Inr cfg) \<longleftrightarrow>
      template_builds P w \<and> name (provider sp) = Provider_AWS P) \<and>
   (\<forall>cfg. RayCluster__make_config P sp w = Inr cfg \<longrightarrow>
      getitem cfg ''min_workers'' = Inr (YInt (worker_count sp)) \<and>
      getitem cfg ''max_workers'' = Inr (YInt (worker_count sp)) \<and>
      getitem cfg ''initial_workers'' = Inr (YInt (worker_count sp)) \<and>
      getitem2 cfg ''provider'' ''type'' = Inr (YStr (name (provider sp))) \<and>
      (\<not> truthy (region (provider sp)) \<longrightarrow>
         (\<exists>body c0. read_file w (base_config P) = Inr body \<and>
                    yaml_safe_load P body = Inr c0 \<and>
                    getitem2 cfg ''provider'' ''region'' = getitem2 c0 ''provider'' ''region'')))"
proof (intro conjI allI impI)
  show "(\<exists>cfg. RayCluster__make_config P sp w = Inr cfg) \<longleftrightarrow>
      template_builds P w \<and> name (provider sp) = Provider_AWS P"
    by (rule make_config_builds_iff)
next
  fix cfg
  assume built: "RayCluster__make_config P sp w = Inr cfg"
  note f = make_config_fields [OF built]
  show "getitem cfg ''min_workers'' = Inr (YInt (worker_count sp))"
    using f by (rule conjunct1)
  show "getitem cfg ''max_workers'' = Inr (YInt (worker_count sp))"
    using f [THEN conjunct2] by (rule conjunct1)
  show "getitem cfg ''initial_workers'' = Inr (YInt (worker_count sp))"
    using f [THEN conjunct2, THEN conjunct2] by (rule conjunct1)
  show "getitem2 cfg ''provider'' ''type'' = Inr (YStr (name (provider sp)))"
    using f [THEN conjunct2, THEN conjunct2, THEN conjunct2] by (rule conjunct1)
  assume "\<not> truthy (region (provider sp))"
  with f [THEN conjunct2, THEN conjunct2, THEN conjunct2, THEN conjunct2]
  show "\<exists>body c0. read_file w (base_config P) = Inr body \<and>
                    yaml_safe_load P body = Inr c0 \<and>
                    getitem2 cfg ''provider'' ''region'' = getitem2 c0 ''provider'' ''region''"
    by (rule mp)
qed

theorem make_config_workers_and_provider_witness:
  "template_builds (demo_platform None) demo_world \<and>
   name (provider (demo_spec ''aws'')) = Provider_AWS (demo_platform None) \<and>
   RayCluster__make_config (demo_platform None) (demo_spec ''aws'') demo_world = Inr demo_config \<and>
   worker_count (demo_spec ''aws'') = 4 \<and>
   getitem demo_config ''min_workers'' = Inr (YInt 4) \<and>
   getitem demo_config ''max_workers'' = Inr (YInt 4) \<and>
   getitem demo_config ''initial_workers'' = Inr (YInt 4) \<and>
   getitem2 demo_config ''provider'' ''type'' = Inr (YStr ''aws'') \<and>
   \<not> truthy (region (provider (demo_spec ''aws''))) \<and>
   getitem2 demo_config ''provider'' ''region'' = getitem2 demo_template ''provider'' ''region''"
proof -
  note t = make_config_workers_and_provider
             [where P = "demo_platform None" and sp = "demo_spec ''aws''" and w = demo_world]
  have tb: "template_builds (demo_platform None) demo_world"
    by (simp add: template_builds_def has_section_def getitem_def read_file_def
          demo_platform_def demo_world_def demo_template_def)
  have a: "worker_count (demo_spec ''aws'') = 4" "name (provider (demo_spec ''aws'')) = ''aws''"
    "\<not> truthy (region (provider (demo_spec ''aws'')))"
    by (simp_all add: demo_spec_def truthy_def)
  have aws: "name (provider (demo_spec ''aws'')) = Provider_AWS (demo_platform None)"
    by (simp add: demo_spec_def demo_platform_def)
  from t [THEN conjunct1] tb aws
  obtain cfg where cfg: "RayCluster__make_config (demo_platform None) (demo_spec ''aws'') demo_world = Inr cfg"
    by blast
  then have "cfg = demo_config"
    by (simp add: demo_make_config)
  with t [THEN conjunct2, THEN spec, THEN mp, OF cfg]
  have f: "getitem demo_config ''min_workers'' = Inr (YInt (worker_count (demo_spec ''aws''))) \<and>
      getitem demo_config ''max_workers'' = Inr (YInt (worker_count (demo_spec ''aws''))) \<and>
      getitem demo_config ''initial_workers'' = Inr (YInt (worker_count (demo_spec ''aws''))) \<and>
      getitem2 demo_config ''provider'' ''type'' = Inr (YStr (name (provider (demo_spec ''aws''))))"
    by simp
  have r: "getitem2 demo_config ''provider'' ''region'' = getitem2 demo_template ''provider'' ''region''"
    by (simp add: demo_config_def demo_template_def getitem_def getitem2_def)
  from f a r tb aws show ?thesis
    by (simp add: demo_make_config)
qed

section \<open>Unknown providers\<close>

lemma make_config_unknown_provider:
  assumes "RayCluster__instance_key P (name (provider sp)) = None"
    and "template_sections P w"
  shows "RayCluster__make_config P sp w = Inl (unsupported_provider (name (provider sp)))"
proof -
  from assms(2) obtain body kvs pk ak where
    t: "read_file w (base_config P) = Inr body" "yaml_safe_load P body = Inr (YDict kvs)"
       "map_of kvs ''provider'' = Some (YDict pk)" "map_of kvs ''auth'' = Some (YDict ak)"
    by (auto simp: template_sections_def split: sum.splits yaml.splits option.splits)
  show ?thesis
    using assms(1) t
    by (simp add: RayCluster__make_config_def and_then_def setitem_dict setitem2_dict
          update_conv' unsupported_provider_def split: option.splits)
qed

lemma make_config_unknown_provider_fails:
  assumes "RayCluster__instance_key P (name (provider sp)) = None"
  shows "\<exists>e. RayCluster__make_config P sp w = Inl e"
proof (cases "RayCluster__make_config P sp w")
  case (Inl e)
  then show ?thesis by blast
next
  case (Inr cfg)
  then obtain ik where "RayCluster__instance_key P (name (provider sp)) = Some ik"
    by (rule make_config_steps)
  with assms show ?thesis by simp
qed

lemma tables_agree:
  "RayCluster__instance_key P n = None \<longleftrightarrow> RayCluster__credentials_env P n = None"
  by (simp add: RayCluster__instance_key_def RayCluster__credentials_env_def)

text \<open>
  Claim C5. For a provider name missing from either lookup table: it is missing from
  both; the builder fails; the constructor fails and leaves the world (files, directories,
  environment) exactly as it was, so nothing has been written; with a credentials file the
  constructor's error is \<^verbatim>\<open>ValueError("Unsupported provider: <name>")\<close> from the credentials
  lookup; and with a template that has its \<open>provider\<close> and \<open>auth\<close> sections the builder's
  error, from the instance-type lookup, is that same value, as is the constructor's.
\<close>

theorem unknown_provider_fails:
  assumes "RayCluster__instance_key P (name (provider sp)) = None \<or>
           RayCluster__credentials_env P (name (provider sp)) = None"
  shows "RayCluster__instance_key P (name (provider sp)) = None \<and>
         RayCluster__credentials_env P (name (provider sp)) = None \<and>
         (\<exists>e. RayCluster__make_config P sp w = Inl e) \<and>
         (\<exists>e. RayCluster_init P sp w = (Inl e, w)) \<and>
         (credentials_file (provider sp) \<noteq> None \<longrightarrow>
            RayCluster_init P sp w = (Inl (unsupported_provider (name (provider sp))), w)) \<and>
         (template_sections P w \<longrightarrow>
            RayCluster__make_config P sp w = Inl (unsupported_provider (name (provider sp))) \<and>
            RayCluster_init P sp w = (Inl (unsupported_provider (name (provider sp))), w))"
proof -
  from assms have ik: "RayCluster__instance_key P (name (provider sp)) = None"
    and ce: "RayCluster__credentials_env P (name (provider sp)) = None"
    using tables_agree [of P "name (provider sp)"] by auto
  obtain e where mk: "RayCluster__make_config P sp w = Inl e"
    using make_config_unknown_provider_fails [OF ik] by blast
  have with_file: "RayCluster_init P sp w = (Inl (unsupported_provider (name (provider sp))), w)"
    if "credentials_file (provider sp) \<noteq> None"
    using that ce by (auto simp: RayCluster_init_def unsupported_provider_def)
  have without_file: "RayCluster_init P sp w = (Inl e, w)"
    if "credentials_file (provider sp) = None"
    using that mk by (simp add: RayCluster_init_def)
  have some: "\<exists>e. RayCluster_init P sp w = (Inl e, w)"
    using with_file without_file by (cases "credentials_file (provider sp)") auto
  have sections: "RayCluster__make_config P sp w = Inl (unsupported_provider (name (provider sp))) \<and>
      RayCluster_init P sp w = (Inl (unsupported_provider (name (provider sp))), w)"
    if "template_sections P w"
  proof -
    from make_config_unknown_provider [OF ik that] mk
    have "e = unsupported_provider (name (provider sp))" by simp
    with mk with_file without_file show ?thesis
      by (cases "credentials_file (provider sp)") auto
  qed
  from ik ce mk some with_file sections show ?thesis
    by blast
qed

theorem unknown_provider_fails_witness:
  "RayCluster__instance_key (demo_platform None) (name (provider (demo_spec ''gcp''))) = None \<and>
   template_sections (demo_platform None) demo_world \<and>
   RayCluster__make_config (demo_platform None) (demo_spec ''gcp'') demo_world =
     Inl (ValueError ''Unsupported provider: gcp'') \<and>
   RayCluster_init (demo_platform None) (demo_spec ''gcp'') demo_world =
     (Inl (ValueError ''Unsupported provider: gcp''), demo_world)"
proof -
  have ik: "RayCluster__instance_key (demo_platform None) (name (provider (demo_spec ''gcp''))) = None"
    by (simp add: RayCluster__instance_key_def demo_platform_def demo_spec_def)
  have ts: "template_sections (demo_platform None) demo_world"
    by (simp add: template_sections_def read_file_def demo_platform_def demo_world_def
          demo_template_def)
  have n: "unsupported_provider (name (provider (demo_spec ''gcp''))) =
      ValueError ''Unsupported provider: gcp''"
    by (simp add: unsupported_provider_def demo_spec_def)
  from unknown_provider_fails [OF disjI1 [OF ik], of demo_world] ik ts n show ?thesis
    by simp
qed

section \<open>The path a configuration is persisted to\<close>














end
